theory Spec2Isabelle
  imports Main
begin

section \<open>Python strings\<close>

text \<open>
  A Python \<^verbatim>\<open>str\<close> is a sequence of Unicode code points, so it is modelled as a list of
  natural numbers (one per code point) rather than as a list of 8-bit characters: the
  handlers receive the id from the URL path, which may hold any code point.
  \<open>str\<close> embeds an ASCII literal.
\<close>

type_synonym pystr = "nat list"

definition str :: "string \<Rightarrow> pystr" where
  "str s = map of_char s"

definition quoted :: "pystr \<Rightarrow> pystr" where
  \<comment> \<open>\<^verbatim>\<open>repr\<close> of a string without quotes or escapes in it: the text between single quotes\<close>
  "quoted s = [39] @ s @ [39]"

definition startswith :: "pystr \<Rightarrow> pystr \<Rightarrow> bool" where
  "startswith s pre = (take (length pre) s = pre)"

definition endswith :: "pystr \<Rightarrow> pystr \<Rightarrow> bool" where
  "endswith s suf = (length suf \<le> length s \<and> drop (length s - length suf) s = suf)"

definition rfind :: "pystr \<Rightarrow> nat \<Rightarrow> int" where
  \<comment> \<open>\<^verbatim>\<open>s.rfind(c)\<close> for a one-character \<^verbatim>\<open>c\<close>: the highest index holding it, or -1\<close>
  "rfind s c = fold (\<lambda>(i, x) r. if x = c then int i else r) (enumerate 0 s) (- 1)"

fun split :: "nat \<Rightarrow> pystr \<Rightarrow> pystr list" where
  "split sep [] = [] # []"
| "split sep (c # cs) =
     (if c = sep then [] # split sep cs
      else (case split sep cs of [] \<Rightarrow> [c] # [] | w # ws \<Rightarrow> (c # w) # ws))"

fun str_join :: "pystr \<Rightarrow> pystr list \<Rightarrow> pystr" where
  "str_join sep [] = []"
| "str_join sep [x] = x"
| "str_join sep (x # y # ys) = x @ sep @ str_join sep (y # ys)"

fun str_of_nat :: "nat \<Rightarrow> pystr" where
  "str_of_nat n = (if n < 10 then [48 + n] else str_of_nat (n div 10) @ [48 + n mod 10])"

declare str_of_nat.simps [simp del]

subsection \<open>\<^verbatim>\<open>str.isdigit\<close>\<close>

text \<open>
  \<^verbatim>\<open>str.isdigit()\<close> is true when the string is not empty and every character has the
  Unicode property Numeric_Type=Digit or Numeric_Type=Decimal. The table below lists
  those code points as inclusive ranges, for the Unicode database 14.0.0 that CPython 3.11
  ships. Besides the ASCII digits it holds, among others, the superscript digits
  U+00B2, U+00B3, U+00B9 and the Arabic-Indic digits U+0660..U+0669. The table depends on
  the interpreter: CPython 3.12 ships a later Unicode version with twenty more such code
  points. The ASCII digits and U+00B2 are digits in every version, and no other ASCII
  character is.
\<close>

definition unicode_digit_ranges :: "(nat \<times> nat) list" where
  "unicode_digit_ranges =
    [(48, 57), (178, 179), (185, 185), (1632, 1641), (1776, 1785), (1984, 1993),
     (2406, 2415), (2534, 2543), (2662, 2671), (2790, 2799), (2918, 2927), (3046, 3055),
     (3174, 3183), (3302, 3311), (3430, 3439), (3558, 3567), (3664, 3673), (3792, 3801),
     (3872, 3881), (4160, 4169), (4240, 4249), (4969, 4977), (6112, 6121), (6160, 6169),
     (6470, 6479), (6608, 6618), (6784, 6793), (6800, 6809), (6992, 7001), (7088, 7097),
     (7232, 7241), (7248, 7257), (8304, 8304), (8308, 8313), (8320, 8329), (9312, 9320),
     (9332, 9340), (9352, 9360), (9450, 9450), (9461, 9469), (9471, 9471), (10102, 10110),
     (10112, 10120), (10122, 10130), (42528, 42537), (43216, 43225), (43264, 43273),
     (43472, 43481), (43504, 43513), (43600, 43609), (44016, 44025), (65296, 65305),
     (66720, 66729), (68160, 68163), (68912, 68921), (69216, 69224), (69714, 69722),
     (69734, 69743), (69872, 69881), (69942, 69951), (70096, 70105), (70384, 70393),
     (70736, 70745), (70864, 70873), (71248, 71257), (71360, 71369), (71472, 71481),
     (71904, 71913), (72016, 72025), (72784, 72793), (73040, 73049), (73120, 73129),
     (92768, 92777), (92864, 92873), (93008, 93017), (120782, 120831), (123200, 123209),
     (123632, 123641), (125264, 125273), (127232, 127242), (130032, 130041)]"

definition is_unicode_digit :: "nat \<Rightarrow> bool" where
  "is_unicode_digit c = list_ex (\<lambda>(lo, hi). lo \<le> c \<and> c \<le> hi) unicode_digit_ranges"

definition isdigit :: "pystr \<Rightarrow> bool" where
  "isdigit s = (s \<noteq> [] \<and> list_all is_unicode_digit s)"

text \<open>
  The specification's pattern \<^verbatim>\<open>^[0-9]+$\<close>, read as a match of the whole string: one or
  more characters, each an ASCII digit. This definition follows the specification's words;
  the handlers use \<open>isdigit\<close>.
\<close>

definition matches_ascii_digits :: "pystr \<Rightarrow> bool" where
  "matches_ascii_digits s = (s \<noteq> [] \<and> list_all (\<lambda>c. 48 \<le> c \<and> c \<le> 57) s)"

subsection \<open>\<^verbatim>\<open>os.path\<close> on POSIX\<close>

text \<open>
  The service runs on a POSIX system, where \<^verbatim>\<open>os.path\<close> is \<^verbatim>\<open>posixpath\<close>: the separator
  is the slash (code point 47) and the extension separator the dot (46).
\<close>

definition sep :: pystr where "sep = str ''/''"
definition curdir :: pystr where "curdir = str ''.''"
definition pardir :: pystr where "pardir = str ''..''"

definition join :: "pystr \<Rightarrow> pystr \<Rightarrow> pystr" where
  "join a b =
     (if startswith b sep then b
      else if a = [] \<or> endswith a sep then a @ b
      else a @ sep @ b)"

definition basename :: "pystr \<Rightarrow> pystr" where
  "basename p = (let i = rfind p 47 + 1 in drop (nat i) p)"

function splitext_scan :: "pystr \<Rightarrow> nat \<Rightarrow> nat \<Rightarrow> bool" where
  \<comment> \<open>the loop of \<^verbatim>\<open>genericpath._splitext\<close> that skips leading dots: true when it returns
      from inside, at a character of the file name that is not a dot\<close>
  "splitext_scan p filenameIndex dotIndex =
     (if filenameIndex < dotIndex
      then (if take 1 (drop filenameIndex p) \<noteq> str ''.'' then True
            else splitext_scan p (filenameIndex + 1) dotIndex)
      else False)"
  by pat_completeness auto
termination
  by (relation "measure (\<lambda>(p, filenameIndex, dotIndex). dotIndex - filenameIndex)") auto

declare splitext_scan.simps [simp del]

definition splitext :: "pystr \<Rightarrow> pystr \<times> pystr" where
  "splitext p =
     (let sepIndex = rfind p 47; dotIndex = rfind p 46 in
      if dotIndex > sepIndex \<and> splitext_scan p (nat (sepIndex + 1)) (nat dotIndex)
      then (take (nat dotIndex) p, drop (nat dotIndex) p)
      else (p, []))"

definition isabs :: "pystr \<Rightarrow> bool" where
  "isabs s = startswith s sep"

definition normpath_step :: "nat \<Rightarrow> pystr list \<Rightarrow> pystr \<Rightarrow> pystr list" where
  "normpath_step initial_slashes new_comps component =
     (if component = [] \<or> component = curdir then new_comps
      else if component \<noteq> pardir \<or> (initial_slashes = 0 \<and> new_comps = [])
              \<or> (new_comps \<noteq> [] \<and> last new_comps = pardir)
      then new_comps @ [component]
      else if new_comps \<noteq> [] then butlast new_comps
      else new_comps)"

definition normpath :: "pystr \<Rightarrow> pystr" where
  "normpath path =
     (if path = [] then curdir
      else
        let initial_slashes =
              (if startswith path sep
               then (if startswith path (sep @ sep) \<and> \<not> startswith path (sep @ sep @ sep)
                     then 2 else 1)
               else 0);
            comps = foldl (normpath_step initial_slashes) [] (split 47 path);
            path' = concat (replicate initial_slashes sep) @ str_join sep comps
        in if path' = [] then curdir else path')"

fun commonprefix :: "pystr list \<Rightarrow> pystr list \<Rightarrow> pystr list" where
  "commonprefix (x # xs) (y # ys) = (if x = y then x # commonprefix xs ys else [])"
| "commonprefix _ _ = []"

section \<open>\<^verbatim>\<open>sanitize_filename\<close>\<close>

text \<open>
  \<^verbatim>\<open>re.sub(r'[<>:"/\\|?*]', '_', filename)\<close>: the pattern is one character class, so every
  match is a single character, matches cannot overlap, and the replacement text has no
  group reference. \<open>re_sub_class\<close> scans the subject left to right and puts the
  replacement text in place of every character of the class.
\<close>

fun re_sub_class :: "nat list \<Rightarrow> pystr \<Rightarrow> pystr \<Rightarrow> pystr" where
  "re_sub_class cls repl [] = []"
| "re_sub_class cls repl (c # cs) =
     (if c \<in> set cls then repl @ re_sub_class cls repl cs else c # re_sub_class cls repl cs)"

definition problem_chars :: "nat list" where
  \<comment> \<open>the class \<^verbatim>\<open>[<>:"/\\|?*]\<close>; 0x22 is the double quote and 0x5C the backslash\<close>
  "problem_chars =
     map of_char [CHR ''<'', CHR ''>'', CHR '':'', CHR 0x22, CHR ''/'', CHR 0x5C, CHR ''|'',
                  CHR ''?'', CHR ''*'']"

definition sanitize_filename :: "pystr \<Rightarrow> pystr" where
  "sanitize_filename filename = re_sub_class problem_chars (str ''_'') filename"

section \<open>The world outside the handlers\<close>

text \<open>
  Everything a handler does besides computing on strings is a call into Flask, the
  operating system, the zip library or the Deezer client. Such a call may raise, and what
  it returns is decided outside the program, so the handlers take the outcomes of these
  calls as an environment \<open>env\<close> and return, next to their result, the list of the calls
  they made, in order.

  \<open>exn\<close> stands for an exception whose class derives from \<^verbatim>\<open>Exception\<close> (what
  \<^verbatim>\<open>except Exception\<close> catches); it carries \<^verbatim>\<open>str(e)\<close>. An interrupt or an exit of the
  interpreter, which that clause does not catch, ends the worker and is not modelled.
\<close>

datatype exn = Exception pystr

fun exn_str :: "exn \<Rightarrow> pystr" where
  "exn_str (Exception m) = m"

datatype kind = Track | Album | Playlist

datatype response =
    Json_error pystr nat
      \<comment> \<open>\<^verbatim>\<open>jsonify({'error': message}), status\<close>\<close>
  | Attachment pystr pystr pystr
      \<comment> \<open>\<^verbatim>\<open>send_file(path, as_attachment=True, download_name=..., mimetype=...)\<close>, status 200\<close>

datatype cleanup =
    Remove_file pystr pystr
      \<comment> \<open>the closure \<^verbatim>\<open>remove_file\<close> of \<^verbatim>\<open>download_song\<close> over \<^verbatim>\<open>audio_file\<close>, \<^verbatim>\<open>temp_dir\<close>\<close>
  | Remove_files pystr pystr
      \<comment> \<open>the closure \<^verbatim>\<open>remove_files\<close> of the album and playlist handlers over
          \<^verbatim>\<open>zip_path\<close>, \<^verbatim>\<open>temp_dir\<close>\<close>

datatype event =
    Mkdtemp
  | Log_info pystr
  | Log_error pystr
  | Provider_call kind pystr pystr pystr bool bool
      \<comment> \<open>link, output_dir, quality_download, recursive_quality, recursive_download\<close>
  | Os_walk pystr
  | Os_rename pystr pystr
  | Zip_open pystr
  | Zip_write pystr pystr pystr
      \<comment> \<open>archive, file written, entry name\<close>
  | Zip_close pystr
  | Send_file pystr
  | Call_after_request cleanup
  | Os_remove pystr
  | Os_rmdir pystr
  | Shutil_rmtree pystr

record env =
  mkdtemp :: "exn + pystr"
  provider :: "kind \<Rightarrow> pystr \<Rightarrow> pystr \<Rightarrow> pystr \<Rightarrow> bool \<Rightarrow> bool \<Rightarrow> exn + unit"
  os_walk :: "pystr \<Rightarrow> (pystr \<times> pystr list \<times> pystr list) list"
  getcwd :: "exn + pystr"
  os_rename :: "pystr \<Rightarrow> pystr \<Rightarrow> exn + unit"
  zip_open :: "pystr \<Rightarrow> exn + unit"
  zip_write :: "pystr \<Rightarrow> pystr \<Rightarrow> pystr \<Rightarrow> exn + unit"
  zip_close :: "pystr \<Rightarrow> exn + unit"
  send_file :: "pystr \<Rightarrow> exn + unit"
  call_after_request :: "exn + unit"
  os_remove :: "pystr \<Rightarrow> exn + unit"
  os_rmdir :: "pystr \<Rightarrow> exn + unit"
  shutil_rmtree :: "pystr \<Rightarrow> exn + unit"

text \<open>
  \<open>os_walk env d\<close> is what \<^verbatim>\<open>os.walk(d)\<close> yields after the provider call: triples of a
  directory, its subdirectory names and its file names (\<^verbatim>\<open>os.walk\<close> skips what it cannot
  read instead of raising). \<open>call_after_request env\<close> is the outcome of evaluating
  \<^verbatim>\<open>response.call_after_request\<close> and applying it as a decorator.
\<close>

type_synonym 'a io = "(exn + 'a) \<times> event list"

definition ret :: "'a \<Rightarrow> 'a io" where
  "ret a = (Inr a, [])"

definition call :: "event \<Rightarrow> exn + 'a \<Rightarrow> 'a io" where
  \<comment> \<open>an outside call: the call is recorded, its outcome is the environment's\<close>
  "call ev outcome = (outcome, [ev])"

definition log :: "event \<Rightarrow> unit io" where
  "log ev = (Inr (), [ev])"

definition lift :: "exn + 'a \<Rightarrow> 'a io" where
  \<comment> \<open>a computation that may raise and makes no recorded call\<close>
  "lift outcome = (outcome, [])"

definition then_do :: "'a io \<Rightarrow> ('a \<Rightarrow> 'b io) \<Rightarrow> 'b io" where
  \<comment> \<open>sequencing: an exception of the first part skips the rest\<close>
  "then_do m f =
     (case m of
        (Inl e, t) \<Rightarrow> (Inl e, t)
      | (Inr a, t) \<Rightarrow> (case f a of (r, t') \<Rightarrow> (r, t @ t')))"

definition try_except :: "'a io \<Rightarrow> (exn \<Rightarrow> 'a io) \<Rightarrow> 'a io" where
  \<comment> \<open>\<^verbatim>\<open>try: m  except Exception as e: h e\<close>\<close>
  "try_except m h =
     (case m of
        (Inl e, t) \<Rightarrow> (case h e of (r, t') \<Rightarrow> (r, t @ t'))
      | (Inr a, t) \<Rightarrow> (Inr a, t))"

definition with_exit :: "'a io \<Rightarrow> unit io \<Rightarrow> 'a io" where
  \<comment> \<open>the body of a \<^verbatim>\<open>with\<close> statement followed by the context manager's exit, which runs
      whether the body raised or not; an exception of the exit is the one that propagates\<close>
  "with_exit m fin =
     (case m of (r, t) \<Rightarrow>
        (case fin of
           (Inl e', t') \<Rightarrow> (Inl e', t @ t')
         | (Inr _, t') \<Rightarrow> (r, t @ t')))"

subsection \<open>\<^verbatim>\<open>os.path.relpath\<close>\<close>

definition abspath :: "exn + pystr \<Rightarrow> pystr \<Rightarrow> exn + pystr" where
  \<comment> \<open>the first argument is the outcome of \<^verbatim>\<open>os.getcwd()\<close>, called for a relative path only\<close>
  "abspath cwd path =
     (if \<not> isabs path
      then (case cwd of Inl e \<Rightarrow> Inl e | Inr d \<Rightarrow> Inr (normpath (join d path)))
      else Inr (normpath path))"

fun join_all :: "pystr list \<Rightarrow> pystr" where
  \<comment> \<open>\<^verbatim>\<open>join(*parts)\<close> for a list that is not empty\<close>
  "join_all [] = []"
| "join_all (a # p) = foldl join a p"

definition relpath :: "exn + pystr \<Rightarrow> pystr \<Rightarrow> pystr \<Rightarrow> exn + pystr" where
  "relpath cwd path start =
     (if path = [] then Inl (Exception (str ''no path specified''))
      else
        (case abspath cwd start of
           Inl e \<Rightarrow> Inl e
         | Inr abs_start \<Rightarrow>
            (case abspath cwd path of
               Inl e \<Rightarrow> Inl e
             | Inr abs_path \<Rightarrow>
                (let start_list = filter (\<lambda>x. x \<noteq> []) (split 47 abs_start);
                     path_list = filter (\<lambda>x. x \<noteq> []) (split 47 abs_path);
                     i = length (commonprefix start_list path_list);
                     rel_list = replicate (length start_list - i) pardir @ drop i path_list
                 in if rel_list = [] then Inr curdir else Inr (join_all rel_list)))))"

section \<open>The request handlers\<close>

text \<open>
  The three handlers are bound to the URL rules \<^verbatim>\<open>/download/song/<string:id>\<close>,
  \<^verbatim>\<open>/download/album/<string:id>\<close> and \<^verbatim>\<open>/download/playlist/<string:id>\<close>. The
  \<^verbatim>\<open>string\<close> converter of the router matches one path segment: at least one character,
  none of them a slash (code point 47). A handler is called only with an id the converter
  delivers; a path whose last part is empty or holds a slash does not match the rule and
  never reaches the handler.
\<close>

definition string_converter_delivers :: "pystr \<Rightarrow> bool" where
  "string_converter_delivers s = (s \<noteq> [] \<and> 47 \<notin> set s)"

definition args_get :: "pystr option \<Rightarrow> pystr \<Rightarrow> pystr" where
  \<comment> \<open>\<^verbatim>\<open>request.args.get('quality', default)\<close>: what the parameter holds, the default when the
      query has no such parameter\<close>
  "args_get arg dflt = (case arg of None \<Rightarrow> dflt | Some v \<Rightarrow> v)"

definition allowed_qualities :: "pystr list" where
  "allowed_qualities = [str ''MP3_128'', str ''MP3_320'', str ''FLAC'']"

definition repr_list :: "pystr list \<Rightarrow> pystr" where
  \<comment> \<open>what an f-string prints for a list of plain strings: \<^verbatim>\<open>['a', 'b']\<close>\<close>
  "repr_list xs = str ''['' @ str_join (str '', '') (map quoted xs) @ str '']''"

text \<open>
  The messages of the JSON error bodies. The code points 225, 243 and 193 are the letters
  a and o with acute accent and the capital A with acute accent.
\<close>

definition invalid_quality_msg :: pystr where
  \<comment> \<open>the f-string ends in \<^verbatim>\<open>{allowed_qualities}\<close>, the printed list\<close>
  "invalid_quality_msg =
     str ''Calidad no v'' @ [225] @ str ''lida. Opciones permitidas: ''
     @ repr_list allowed_qualities"

definition invalid_song_id_msg :: pystr where
  "invalid_song_id_msg = str ''ID de canci'' @ [243] @ str ''n inv'' @ [225] @ str ''lido''"

definition invalid_album_id_msg :: pystr where
  "invalid_album_id_msg = str ''ID de '' @ [225] @ str ''lbum inv'' @ [225] @ str ''lido''"

definition invalid_playlist_id_msg :: pystr where
  "invalid_playlist_id_msg = str ''ID de playlist inv'' @ [225] @ str ''lido''"

definition no_file_msg :: pystr where
  "no_file_msg = str ''No se encontr'' @ [243] @ str '' el archivo descargado''"

definition no_files_msg :: pystr where
  "no_files_msg = str ''No se encontraron archivos descargados''"

definition is_audio_name :: "pystr \<Rightarrow> bool" where
  \<comment> \<open>\<^verbatim>\<open>file.endswith(('.mp3', '.flac'))\<close>\<close>
  "is_audio_name file = (endswith file (str ''.mp3'') \<or> endswith file (str ''.flac''))"

definition audio_files_in :: "(pystr \<times> pystr list \<times> pystr list) list \<Rightarrow> pystr list" where
  \<comment> \<open>the two nested loops over the walk that collect \<^verbatim>\<open>os.path.join(root, file)\<close>\<close>
  "audio_files_in w =
     [join root file. (root, dirs, files) \<leftarrow> w, file \<leftarrow> files, is_audio_name file]"

subsection \<open>\<^verbatim>\<open>download_song\<close>\<close>

definition song_body :: "env \<Rightarrow> pystr \<Rightarrow> pystr option \<Rightarrow> response io" where
  "song_body env id' quality_arg =
    (let quality = args_get quality_arg (str ''MP3_320'') in
     if quality \<notin> set allowed_qualities then ret (Json_error invalid_quality_msg 400)
     else if \<not> isdigit id' then ret (Json_error invalid_song_id_msg 400)
     else
      then_do (call Mkdtemp (mkdtemp env)) (\<lambda>temp_dir.
      let song_url = str ''https://www.deezer.com/track/'' @ id' in
      then_do (log (Log_info (str ''Iniciando descarga de canci'' @ [243] @ str ''n: ''
                              @ song_url @ str '', calidad: '' @ quality))) (\<lambda>_.
      then_do (call (Provider_call Track song_url temp_dir quality False False)
                    (provider env Track song_url temp_dir quality False False)) (\<lambda>result.
      then_do (call (Os_walk temp_dir) (Inr (os_walk env temp_dir))) (\<lambda>walk.
      case audio_files_in walk of
        [] \<Rightarrow> ret (Json_error no_file_msg 500)
      | audio_file # _ \<Rightarrow>
         (let original_filename = basename audio_file;
              base_name = fst (splitext original_filename);
              sanitized_name = sanitize_filename base_name;
              new_filename = sanitized_name @ str ''.''
                             @ (if quality = str ''FLAC'' then str ''flac'' else str ''mp3'');
              new_filepath = join temp_dir new_filename
          in
          then_do (if audio_file \<noteq> new_filepath
                   then then_do (call (Os_rename audio_file new_filepath)
                                      (os_rename env audio_file new_filepath))
                                (\<lambda>_. ret new_filepath)
                   else ret audio_file) (\<lambda>audio_file.
          then_do (log (Log_info (str ''Canci'' @ [243] @ str ''n descargada exitosamente: ''
                                  @ new_filename))) (\<lambda>_.
          then_do (call (Send_file audio_file) (send_file env audio_file)) (\<lambda>_.
          let response = Attachment audio_file new_filename
                           (if quality \<noteq> str ''FLAC'' then str ''audio/mpeg''
                            else str ''audio/flac'')
          in
          then_do (call (Call_after_request (Remove_file audio_file temp_dir))
                        (call_after_request env)) (\<lambda>_.
          ret response))))))))))"

definition download_song :: "env \<Rightarrow> pystr \<Rightarrow> pystr option \<Rightarrow> response io" where
  "download_song env id' quality_arg =
     try_except (song_body env id' quality_arg) (\<lambda>e.
       then_do (log (Log_error (str ''Error al descargar canci'' @ [243] @ str ''n: ''
                                @ exn_str e))) (\<lambda>_.
       ret (Json_error (str ''Error al descargar la canci'' @ [243] @ str ''n: '' @ exn_str e)
                       500)))"

definition remove_file :: "env \<Rightarrow> pystr \<Rightarrow> pystr \<Rightarrow> response \<Rightarrow> response io" where
  "remove_file env audio_file temp_dir response =
     then_do (try_except
                (then_do (call (Os_remove audio_file) (os_remove env audio_file)) (\<lambda>_.
                 call (Os_rmdir temp_dir) (os_rmdir env temp_dir)))
                (\<lambda>e. log (Log_error (str ''No se pudo eliminar archivos temporales: ''
                                      @ exn_str e))))
             (\<lambda>_. ret response)"

subsection \<open>\<^verbatim>\<open>download_album\<close> and \<^verbatim>\<open>download_playlist\<close>\<close>

fun zip_write_all :: "env \<Rightarrow> pystr \<Rightarrow> pystr \<Rightarrow> pystr list \<Rightarrow> unit io" where
  \<comment> \<open>the loop \<^verbatim>\<open>for file_path in audio_files\<close> inside the \<^verbatim>\<open>with\<close> block\<close>
  "zip_write_all env zip_path temp_dir [] = ret ()"
| "zip_write_all env zip_path temp_dir (file_path # rest) =
     then_do (lift (relpath (getcwd env) file_path temp_dir)) (\<lambda>arcname.
     then_do (call (Zip_write zip_path file_path arcname)
                   (zip_write env zip_path file_path arcname)) (\<lambda>_.
     zip_write_all env zip_path temp_dir rest))"

definition make_zip :: "env \<Rightarrow> pystr \<Rightarrow> pystr \<Rightarrow> pystr list \<Rightarrow> unit io" where
  \<comment> \<open>\<^verbatim>\<open>with zipfile.ZipFile(zip_path, 'w') as zipf: ...\<close>\<close>
  "make_zip env zip_path temp_dir audio_files =
     then_do (call (Zip_open zip_path) (zip_open env zip_path)) (\<lambda>zipf.
     with_exit (zip_write_all env zip_path temp_dir audio_files)
               (call (Zip_close zip_path) (zip_close env zip_path)))"

definition album_body :: "env \<Rightarrow> pystr \<Rightarrow> pystr option \<Rightarrow> response io" where
  "album_body env id' quality_arg =
    (let quality = args_get quality_arg (str ''MP3_320'') in
     if quality \<notin> set allowed_qualities then ret (Json_error invalid_quality_msg 400)
     else if \<not> isdigit id' then ret (Json_error invalid_album_id_msg 400)
     else
      then_do (call Mkdtemp (mkdtemp env)) (\<lambda>temp_dir.
      let album_url = str ''https://www.deezer.com/album/'' @ id' in
      then_do (log (Log_info (str ''Iniciando descarga de '' @ [225] @ str ''lbum: ''
                              @ album_url @ str '', calidad: '' @ quality))) (\<lambda>_.
      then_do (call (Provider_call Album album_url temp_dir quality True False)
                    (provider env Album album_url temp_dir quality True False)) (\<lambda>result.
      then_do (call (Os_walk temp_dir) (Inr (os_walk env temp_dir))) (\<lambda>walk.
      let audio_files = audio_files_in walk in
      if audio_files = [] then ret (Json_error no_files_msg 500)
      else
        (let zip_path = join temp_dir (str ''album_'' @ id' @ str ''.zip'') in
         then_do (make_zip env zip_path temp_dir audio_files) (\<lambda>_.
         then_do (log (Log_info ([193] @ str ''lbum descargado y empaquetado en ZIP: ''
                                 @ str_of_nat (length audio_files) @ str '' archivos''))) (\<lambda>_.
         then_do (call (Send_file zip_path) (send_file env zip_path)) (\<lambda>_.
         let response = Attachment zip_path (str ''album_'' @ id' @ str ''.zip'')
                          (str ''application/zip'')
         in
         then_do (call (Call_after_request (Remove_files zip_path temp_dir))
                       (call_after_request env)) (\<lambda>_.
         ret response))))))))))"

definition download_album :: "env \<Rightarrow> pystr \<Rightarrow> pystr option \<Rightarrow> response io" where
  "download_album env id' quality_arg =
     try_except (album_body env id' quality_arg) (\<lambda>e.
       then_do (log (Log_error (str ''Error al descargar '' @ [225] @ str ''lbum: ''
                                @ exn_str e))) (\<lambda>_.
       ret (Json_error (str ''Error al descargar el '' @ [225] @ str ''lbum: '' @ exn_str e)
                       500)))"

definition playlist_body :: "env \<Rightarrow> pystr \<Rightarrow> pystr option \<Rightarrow> response io" where
  "playlist_body env id' quality_arg =
    (let quality = args_get quality_arg (str ''MP3_320'') in
     if quality \<notin> set allowed_qualities then ret (Json_error invalid_quality_msg 400)
     else if \<not> isdigit id' then ret (Json_error invalid_playlist_id_msg 400)
     else
      then_do (call Mkdtemp (mkdtemp env)) (\<lambda>temp_dir.
      let playlist_url = str ''https://www.deezer.com/playlist/'' @ id' in
      then_do (log (Log_info (str ''Iniciando descarga de playlist: ''
                              @ playlist_url @ str '', calidad: '' @ quality))) (\<lambda>_.
      then_do (call (Provider_call Playlist playlist_url temp_dir quality True False)
                    (provider env Playlist playlist_url temp_dir quality True False)) (\<lambda>result.
      then_do (call (Os_walk temp_dir) (Inr (os_walk env temp_dir))) (\<lambda>walk.
      let audio_files = audio_files_in walk in
      if audio_files = [] then ret (Json_error no_files_msg 500)
      else
        (let zip_path = join temp_dir (str ''playlist_'' @ id' @ str ''.zip'') in
         then_do (make_zip env zip_path temp_dir audio_files) (\<lambda>_.
         then_do (log (Log_info (str ''Playlist descargada y empaquetada en ZIP: ''
                                 @ str_of_nat (length audio_files) @ str '' archivos''))) (\<lambda>_.
         then_do (call (Send_file zip_path) (send_file env zip_path)) (\<lambda>_.
         let response = Attachment zip_path (str ''playlist_'' @ id' @ str ''.zip'')
                          (str ''application/zip'')
         in
         then_do (call (Call_after_request (Remove_files zip_path temp_dir))
                       (call_after_request env)) (\<lambda>_.
         ret response))))))))))"

definition download_playlist :: "env \<Rightarrow> pystr \<Rightarrow> pystr option \<Rightarrow> response io" where
  "download_playlist env id' quality_arg =
     try_except (playlist_body env id' quality_arg) (\<lambda>e.
       then_do (log (Log_error (str ''Error al descargar playlist: '' @ exn_str e))) (\<lambda>_.
       ret (Json_error (str ''Error al descargar la playlist: '' @ exn_str e) 500)))"

definition remove_files :: "env \<Rightarrow> pystr \<Rightarrow> pystr \<Rightarrow> response \<Rightarrow> response io" where
  "remove_files env zip_path temp_dir response =
     then_do (try_except
                (then_do (call (Os_remove zip_path) (os_remove env zip_path)) (\<lambda>_.
                 call (Shutil_rmtree temp_dir) (shutil_rmtree env temp_dir)))
                (\<lambda>e. log (Log_error (str ''No se pudieron eliminar archivos temporales: ''
                                      @ exn_str e))))
             (\<lambda>_. ret response)"

fun run_cleanup :: "env \<Rightarrow> cleanup \<Rightarrow> response \<Rightarrow> response io" where
  \<comment> \<open>calling a registered closure with the response\<close>
  "run_cleanup env (Remove_file audio_file temp_dir) response =
     remove_file env audio_file temp_dir response"
| "run_cleanup env (Remove_files zip_path temp_dir) response =
     remove_files env zip_path temp_dir response"

section \<open>Sample environments\<close>

text \<open>
  Flask's response class is Werkzeug's \<^verbatim>\<open>Response\<close>. It offers \<^verbatim>\<open>call_on_close\<close>, and Flask
  offers the function \<^verbatim>\<open>after_this_request\<close>; neither defines an attribute
  \<^verbatim>\<open>call_after_request\<close>, so evaluating \<^verbatim>\<open>response.call_after_request\<close> raises this
  \<^verbatim>\<open>AttributeError\<close>.
\<close>

definition attribute_error_msg :: pystr where
  "attribute_error_msg =
     quoted (str ''Response'') @ str '' object has no attribute ''
     @ quoted (str ''call_after_request'')"

definition flask_call_after_request :: "exn + unit" where
  "flask_call_after_request = Inl (Exception attribute_error_msg)"

text \<open>
  \<open>quiet_env w hook\<close>: \<^verbatim>\<open>mkdtemp\<close> returns \<^verbatim>\<open>/tmp/tmpk3v9xq\<close>, the provider returns and
  leaves the directory tree \<open>w\<close>, no call of the operating system or the zip library
  fails, and \<open>hook\<close> is the outcome of \<^verbatim>\<open>response.call_after_request\<close>.
\<close>

definition quiet_env :: "(pystr \<times> pystr list \<times> pystr list) list \<Rightarrow> exn + unit \<Rightarrow> env" where
  "quiet_env w hook =
     \<lparr> mkdtemp = Inr (str ''/tmp/tmpk3v9xq''),
       provider = (\<lambda>k link output_dir quality rq rd. Inr ()),
       os_walk = (\<lambda>d. w),
       getcwd = Inr (str ''/srv/app''),
       os_rename = (\<lambda>a b. Inr ()),
       zip_open = (\<lambda>z. Inr ()),
       zip_write = (\<lambda>z f a. Inr ()),
       zip_close = (\<lambda>z. Inr ()),
       send_file = (\<lambda>f. Inr ()),
       call_after_request = hook,
       os_remove = (\<lambda>f. Inr ()),
       os_rmdir = (\<lambda>d. Inr ()),
       shutil_rmtree = (\<lambda>d. Inr ()) \<rparr>"

definition empty_walk :: "(pystr \<times> pystr list \<times> pystr list) list" where
  \<comment> \<open>the provider wrote a cover image and no audio file\<close>
  "empty_walk = [(str ''/tmp/tmpk3v9xq'', [], [str ''cover.jpg''])]"

definition song_walk :: "(pystr \<times> pystr list \<times> pystr list) list" where
  "song_walk = [(str ''/tmp/tmpk3v9xq'', [], [str ''AC-DC: Best?.mp3''])]"

definition album_walk :: "(pystr \<times> pystr list \<times> pystr list) list" where
  "album_walk =
     [(str ''/tmp/tmpk3v9xq'', [str ''Album''], []),
      (str ''/tmp/tmpk3v9xq/Album'', [str ''CD1'', str ''CD2''], [str ''cover.jpg'']),
      (str ''/tmp/tmpk3v9xq/Album/CD1'', [], [str ''01 A.mp3'', str ''02 B.mp3'']),
      (str ''/tmp/tmpk3v9xq/Album/CD2'', [], [str ''01 C.flac''])]"

definition failing_remove_env :: env where
  \<comment> \<open>as \<open>quiet_env\<close>, but \<^verbatim>\<open>os.remove\<close> raises\<close>
  "failing_remove_env =
     (quiet_env song_walk (Inr ()))
       \<lparr> os_remove := (\<lambda>f. Inl (Exception (str ''[Errno 13] Permission denied''))) \<rparr>"

definition failing_provider_env :: env where
  \<comment> \<open>as \<open>quiet_env\<close>, but the provider raises and leaves nothing behind\<close>
  "failing_provider_env =
     (quiet_env [] flask_call_after_request)
       \<lparr> provider := (\<lambda>k link output_dir quality rq rd.
                        Inl (Exception (str ''Track not found''))) \<rparr>"

section \<open>Properties of \<^verbatim>\<open>sanitize_filename\<close>\<close>

lemma problem_chars_codes: "problem_chars = [60, 62, 58, 34, 47, 92, 124, 63, 42]"
  by (simp add: problem_chars_def)

lemma re_sub_class_single:
  "re_sub_class cls [r] s = map (\<lambda>c. if c \<in> set cls then r else c) s"
  by (induction s) simp_all

lemma underscore_not_problem: "95 \<notin> set problem_chars"
  by (simp add: problem_chars_codes)

lemma sanitize_filename_map:
  "sanitize_filename s = map (\<lambda>c. if c \<in> set problem_chars then 95 else c) s"
  by (simp add: sanitize_filename_def str_def re_sub_class_single)

text \<open>
  C5. \<open>sanitize_filename\<close> puts \<^verbatim>\<open>_\<close> (code point 95) at every position that holds one of
  \<^verbatim>\<open>< > : " / \ | ? *\<close>, keeps every other character where it is, and applying it twice
  gives what applying it once gives.
\<close>

theorem sanitize_filename_replaces_and_idempotent:
  "sanitize_filename s = map (\<lambda>c. if c \<in> set problem_chars then 95 else c) s
   \<and> problem_chars = map of_char [CHR ''<'', CHR ''>'', CHR '':'', CHR 0x22, CHR ''/'',
                                  CHR 0x5C, CHR ''|'', CHR ''?'', CHR ''*'']
   \<and> sanitize_filename (sanitize_filename s) = sanitize_filename s"
proof -
  have m: "sanitize_filename s = map (\<lambda>c. if c \<in> set problem_chars then 95 else c) s"
    by (rule sanitize_filename_map)
  have "sanitize_filename (sanitize_filename s) = sanitize_filename s"
    using underscore_not_problem by (simp add: sanitize_filename_map)
  with m show ?thesis by (simp add: problem_chars_def)
qed

theorem sanitize_filename_replaces_and_idempotent_witness:
  "sanitize_filename (str ''AC/DC: Best?'') = str ''AC_DC_ Best_''
   \<and> sanitize_filename (sanitize_filename (str ''AC/DC: Best?'')) = str ''AC_DC_ Best_''"
proof -
  have one: "sanitize_filename (str ''AC/DC: Best?'') = str ''AC_DC_ Best_''"
    by (simp add: str_def sanitize_filename_def problem_chars_codes)
  from sanitize_filename_replaces_and_idempotent [of "str ''AC/DC: Best?''"]
  have "sanitize_filename (sanitize_filename (str ''AC/DC: Best?''))
        = sanitize_filename (str ''AC/DC: Best?'')"
    by blast
  with one show ?thesis by simp
qed

text \<open>
  C10. \<open>sanitize_filename\<close> is a total function of its argument whose result has the
  length of the argument and holds none of \<^verbatim>\<open>< > : " / \ | ? *\<close>.
\<close>

theorem sanitize_filename_length_and_clean:
  "length (sanitize_filename s) = length s
   \<and> set (sanitize_filename s) \<inter> set problem_chars = {}"
  using underscore_not_problem by (auto simp: sanitize_filename_map)

theorem sanitize_filename_length_and_clean_witness:
  "length (sanitize_filename (str ''a<b>c*'')) = 6
   \<and> set (sanitize_filename (str ''a<b>c*'')) \<inter> set problem_chars = {}"
  using sanitize_filename_length_and_clean [of "str ''a<b>c*''"]
  by (simp add: str_def)

section \<open>Validation of the request\<close>

lemmas io_defs = ret_def call_def log_def lift_def then_do_def try_except_def with_exit_def

lemmas sample_defs = quiet_env_def failing_provider_env_def failing_remove_env_def
  empty_walk_def song_walk_def album_walk_def flask_call_after_request_def

lemma fst_ret: "fst (ret a) = Inr a"
  by (simp add: ret_def)

lemma then_do_not: "(\<And>a. fst (f a) \<noteq> Inr r) \<Longrightarrow> fst (then_do m f) \<noteq> Inr r"
  by (cases m) (simp add: then_do_def case_prod_beta split: sum.splits)

lemma try_except_not:
  "fst m \<noteq> Inr r \<Longrightarrow> (\<And>e. fst (h e) \<noteq> Inr r) \<Longrightarrow> fst (try_except m h) \<noteq> Inr r"
  by (cases m) (auto simp: try_except_def case_prod_beta split: sum.splits)

lemma default_allowed: "args_get None (str ''MP3_320'') \<in> set allowed_qualities"
  by (simp add: args_get_def allowed_qualities_def)

lemma msgs_distinct:
  "invalid_quality_msg \<noteq> invalid_song_id_msg"
  "invalid_quality_msg \<noteq> invalid_album_id_msg"
  "invalid_quality_msg \<noteq> invalid_playlist_id_msg"
  by (simp_all add: invalid_quality_msg_def invalid_song_id_msg_def invalid_album_id_msg_def
      invalid_playlist_id_msg_def str_def)

lemma song_bad_quality:
  "q \<notin> set allowed_qualities \<Longrightarrow>
   download_song env ident (Some q) = (Inr (Json_error invalid_quality_msg 400), [])"
  by (simp add: download_song_def song_body_def args_get_def Let_def io_defs)

lemma album_bad_quality:
  "q \<notin> set allowed_qualities \<Longrightarrow>
   download_album env ident (Some q) = (Inr (Json_error invalid_quality_msg 400), [])"
  by (simp add: download_album_def album_body_def args_get_def Let_def io_defs)

lemma playlist_bad_quality:
  "q \<notin> set allowed_qualities \<Longrightarrow>
   download_playlist env ident (Some q) = (Inr (Json_error invalid_quality_msg 400), [])"
  by (simp add: download_playlist_def playlist_body_def args_get_def Let_def io_defs)

lemma song_bad_id:
  "args_get q (str ''MP3_320'') \<in> set allowed_qualities \<Longrightarrow> \<not> isdigit ident \<Longrightarrow>
   download_song env ident q = (Inr (Json_error invalid_song_id_msg 400), [])"
  by (simp add: download_song_def song_body_def Let_def io_defs)

lemma album_bad_id:
  "args_get q (str ''MP3_320'') \<in> set allowed_qualities \<Longrightarrow> \<not> isdigit ident \<Longrightarrow>
   download_album env ident q = (Inr (Json_error invalid_album_id_msg 400), [])"
  by (simp add: download_album_def album_body_def Let_def io_defs)

lemma playlist_bad_id:
  "args_get q (str ''MP3_320'') \<in> set allowed_qualities \<Longrightarrow> \<not> isdigit ident \<Longrightarrow>
   download_playlist env ident q = (Inr (Json_error invalid_playlist_id_msg 400), [])"
  by (simp add: download_playlist_def playlist_body_def Let_def io_defs)

lemma ascii_digit_unicode: "48 \<le> c \<Longrightarrow> c \<le> 57 \<Longrightarrow> is_unicode_digit c"
  by (simp add: is_unicode_digit_def unicode_digit_ranges_def)

text \<open>
  Every string the pattern \<^verbatim>\<open>^[0-9]+$\<close> matches passes \<^verbatim>\<open>isdigit\<close>, so the ids that
  \<^verbatim>\<open>isdigit\<close> refuses are among those the pattern refuses. The converse fails: the
  superscript two is a Unicode digit.
\<close>

lemma ascii_digits_isdigit: "matches_ascii_digits s \<Longrightarrow> isdigit s"
  by (auto simp: matches_ascii_digits_def isdigit_def list_all_iff ascii_digit_unicode)

lemma superscript_two:
  "isdigit [178]" "\<not> matches_ascii_digits [178]"
  by (simp_all add: isdigit_def is_unicode_digit_def unicode_digit_ranges_def
      matches_ascii_digits_def)

text \<open>
  C1, as stated, fails: the id made of the one character U+00B2 (superscript two, sent as
  \<^verbatim>\<open>%C2%B2\<close> in the URL) does not match \<^verbatim>\<open>^[0-9]+$\<close> and is delivered by the route, yet
  no endpoint answers it with 400 and the invalid-id body: each goes on to call the
  provider, which here raises, and answers 500.
\<close>

theorem non_ascii_digit_id_not_rejected:
  "\<not> matches_ascii_digits [178]
   \<and> string_converter_delivers [178]
   \<and> fst (download_song failing_provider_env [178] (Some (str ''MP3_320'')))
       = Inr (Json_error (str ''Error al descargar la canci'' @ [243]
                          @ str ''n: Track not found'') 500)
   \<and> fst (download_album failing_provider_env [178] (Some (str ''MP3_320'')))
       = Inr (Json_error (str ''Error al descargar el '' @ [225]
                          @ str ''lbum: Track not found'') 500)
   \<and> fst (download_playlist failing_provider_env [178] (Some (str ''MP3_320'')))
       = Inr (Json_error (str ''Error al descargar la playlist: Track not found'') 500)"
proof -
  have q: "str ''MP3_320'' \<in> set allowed_qualities"
    by (simp add: allowed_qualities_def)
  have song: "fst (download_song failing_provider_env [178] (Some (str ''MP3_320'')))
       = Inr (Json_error (str ''Error al descargar la canci'' @ [243]
                          @ str ''n: Track not found'') 500)"
    using q superscript_two(1)
    by (simp add: download_song_def song_body_def args_get_def Let_def io_defs sample_defs
        str_def)
  have album: "fst (download_album failing_provider_env [178] (Some (str ''MP3_320'')))
       = Inr (Json_error (str ''Error al descargar el '' @ [225]
                          @ str ''lbum: Track not found'') 500)"
    using q superscript_two(1)
    by (simp add: download_album_def album_body_def args_get_def Let_def io_defs sample_defs
        str_def)
  have playlist: "fst (download_playlist failing_provider_env [178] (Some (str ''MP3_320'')))
       = Inr (Json_error (str ''Error al descargar la playlist: Track not found'') 500)"
    using q superscript_two(1)
    by (simp add: download_playlist_def playlist_body_def args_get_def Let_def io_defs
        sample_defs str_def)
  have route: "string_converter_delivers [178]"
    by (simp add: string_converter_delivers_def)
  from superscript_two(2) route song album playlist show ?thesis by blast
qed

text \<open>
  An ASCII character other than \<^verbatim>\<open>0\<close>..\<^verbatim>\<open>9\<close> is not a digit in any version of the Unicode
  table, so an id that holds one fails \<^verbatim>\<open>isdigit\<close> whatever the interpreter.
\<close>

lemma ascii_non_digit_not_unicode_digit:
  "c < 128 \<Longrightarrow> \<not> (48 \<le> c \<and> c \<le> 57) \<Longrightarrow> \<not> is_unicode_digit c"
  by (simp add: is_unicode_digit_def unicode_digit_ranges_def)

lemma ascii_non_digit_not_isdigit:
  "c \<in> set s \<Longrightarrow> c < 128 \<Longrightarrow> \<not> (48 \<le> c \<and> c \<le> 57) \<Longrightarrow> \<not> isdigit s"
  using ascii_non_digit_not_unicode_digit by (auto simp: isdigit_def list_all_iff)

text \<open>
  C1, amended. Take an id that the route delivers to the handler (one path segment: not
  empty, no slash) and that fails Python's \<^verbatim>\<open>str.isdigit\<close>, that is, holds a character
  that is not a Unicode digit (by the table of Unicode 14.0.0). When the quality is
  accepted (given and allowed, or absent), each endpoint answers 400 with its invalid-id
  message, and makes no outside call.
\<close>

theorem non_isdigit_id_rejected:
  assumes "string_converter_delivers ident"
    and "args_get q (str ''MP3_320'') \<in> set allowed_qualities" and "\<not> isdigit ident"
  shows "download_song env ident q = (Inr (Json_error invalid_song_id_msg 400), [])
       \<and> download_album env ident q = (Inr (Json_error invalid_album_id_msg 400), [])
       \<and> download_playlist env ident q = (Inr (Json_error invalid_playlist_id_msg 400), [])"
  using assms(2,3) by (simp add: song_bad_id album_bad_id playlist_bad_id)

theorem non_isdigit_id_rejected_witness:
  "string_converter_delivers (str ''12a4'')
   \<and> args_get (Some (str ''FLAC'')) (str ''MP3_320'') \<in> set allowed_qualities
   \<and> \<not> isdigit (str ''12a4'')
   \<and> download_song (quiet_env song_walk (Inr ())) (str ''12a4'') (Some (str ''FLAC''))
       = (Inr (Json_error invalid_song_id_msg 400), [])
   \<and> download_album (quiet_env song_walk (Inr ())) (str ''12a4'') (Some (str ''FLAC''))
       = (Inr (Json_error invalid_album_id_msg 400), [])
   \<and> download_playlist (quiet_env song_walk (Inr ())) (str ''12a4'') (Some (str ''FLAC''))
       = (Inr (Json_error invalid_playlist_id_msg 400), [])"
proof -
  have r: "string_converter_delivers (str ''12a4'')"
    by (simp add: string_converter_delivers_def str_def)
  have q: "args_get (Some (str ''FLAC'')) (str ''MP3_320'') \<in> set allowed_qualities"
    by (simp add: args_get_def allowed_qualities_def)
  have d: "\<not> isdigit (str ''12a4'')"
    by (simp add: isdigit_def is_unicode_digit_def unicode_digit_ranges_def str_def)
  from r q d non_isdigit_id_rejected [OF r q d, of "quiet_env song_walk (Inr ())"]
  show ?thesis by blast
qed






text \<open>
  C3. A \<^verbatim>\<open>quality\<close> parameter that is not one of \<^verbatim>\<open>MP3_128\<close>, \<^verbatim>\<open>MP3_320\<close>, \<^verbatim>\<open>FLAC\<close> (compared as
  strings, so \<^verbatim>\<open>flac\<close> is refused) gets 400 with the invalid-quality message from each
  endpoint, and the handler makes no outside call at all: no \<^verbatim>\<open>mkdtemp\<close>, no provider
  call.
\<close>

theorem invalid_quality_rejected_before_io:
  assumes "q \<notin> set allowed_qualities"
  shows "download_song env ident (Some q) = (Inr (Json_error invalid_quality_msg 400), [])
       \<and> download_album env ident (Some q) = (Inr (Json_error invalid_quality_msg 400), [])
       \<and> download_playlist env ident (Some q) = (Inr (Json_error invalid_quality_msg 400), [])"
  using assms by (simp add: song_bad_quality album_bad_quality playlist_bad_quality)

theorem invalid_quality_rejected_before_io_witness:
  "str ''flac'' \<notin> set allowed_qualities
   \<and> download_song (quiet_env song_walk (Inr ())) (str ''3135556'') (Some (str ''flac''))
       = (Inr (Json_error invalid_quality_msg 400), [])
   \<and> download_album (quiet_env song_walk (Inr ())) (str ''3135556'') (Some (str ''flac''))
       = (Inr (Json_error invalid_quality_msg 400), [])
   \<and> download_playlist (quiet_env song_walk (Inr ())) (str ''3135556'') (Some (str ''flac''))
       = (Inr (Json_error invalid_quality_msg 400), [])"
proof -
  have q: "str ''flac'' \<notin> set allowed_qualities"
    by (simp add: allowed_qualities_def str_def)
  from q invalid_quality_rejected_before_io
         [OF q, of "quiet_env song_walk (Inr ())" "str ''3135556''"]
  show ?thesis by blast
qed

text \<open>
  C9. When the \<^verbatim>\<open>quality\<close> parameter is not allowed and the id fails the digit check as well,
  each endpoint answers 400 with the invalid-quality message, which differs from every
  invalid-id message: the quality is checked first.
\<close>

theorem invalid_quality_reported_before_invalid_id:
  assumes "q \<notin> set allowed_qualities" and "\<not> isdigit ident"
  shows "fst (download_song env ident (Some q)) = Inr (Json_error invalid_quality_msg 400)
       \<and> fst (download_album env ident (Some q)) = Inr (Json_error invalid_quality_msg 400)
       \<and> fst (download_playlist env ident (Some q)) = Inr (Json_error invalid_quality_msg 400)
       \<and> invalid_quality_msg \<noteq> invalid_song_id_msg
       \<and> invalid_quality_msg \<noteq> invalid_album_id_msg
       \<and> invalid_quality_msg \<noteq> invalid_playlist_id_msg"
  using assms(1) msgs_distinct
  by (simp add: song_bad_quality album_bad_quality playlist_bad_quality)

theorem invalid_quality_reported_before_invalid_id_witness:
  "str ''best'' \<notin> set allowed_qualities \<and> \<not> isdigit (str ''abc'')
   \<and> fst (download_song (quiet_env song_walk (Inr ())) (str ''abc'') (Some (str ''best'')))
       = Inr (Json_error invalid_quality_msg 400)
   \<and> fst (download_album (quiet_env song_walk (Inr ())) (str ''abc'') (Some (str ''best'')))
       = Inr (Json_error invalid_quality_msg 400)
   \<and> fst (download_playlist (quiet_env song_walk (Inr ())) (str ''abc'') (Some (str ''best'')))
       = Inr (Json_error invalid_quality_msg 400)"
proof -
  have q: "str ''best'' \<notin> set allowed_qualities"
    by (simp add: allowed_qualities_def str_def)
  have d: "\<not> isdigit (str ''abc'')"
    by (simp add: isdigit_def is_unicode_digit_def unicode_digit_ranges_def str_def)
  from q d invalid_quality_reported_before_invalid_id
         [OF q d, of "quiet_env song_walk (Inr ())"]
  show ?thesis by blast
qed

section \<open>A provider that leaves no audio file\<close>

lemma digits_3135556: "isdigit (str ''3135556'')"
  by (simp add: isdigit_def str_def ascii_digit_unicode)

lemma no_audio_names:
  "\<forall>(root, dirs, files) \<in> set w. \<forall>file \<in> set files. \<not> is_audio_name file
   \<Longrightarrow> audio_files_in w = []"
  by (auto simp: audio_files_in_def filter_empty_conv)

lemma song_no_audio:
  assumes "args_get q (str ''MP3_320'') \<in> set allowed_qualities" and "isdigit ident"
    and "mkdtemp env = Inr temp_dir"
    and "provider env Track (str ''https://www.deezer.com/track/'' @ ident) temp_dir
           (args_get q (str ''MP3_320'')) False False = Inr ()"
    and "audio_files_in (os_walk env temp_dir) = []"
  shows "fst (download_song env ident q) = Inr (Json_error no_file_msg 500)"
  using assms by (simp add: download_song_def song_body_def Let_def io_defs)

lemma album_no_audio:
  assumes "args_get q (str ''MP3_320'') \<in> set allowed_qualities" and "isdigit ident"
    and "mkdtemp env = Inr temp_dir"
    and "provider env Album (str ''https://www.deezer.com/album/'' @ ident) temp_dir
           (args_get q (str ''MP3_320'')) True False = Inr ()"
    and "audio_files_in (os_walk env temp_dir) = []"
  shows "fst (download_album env ident q) = Inr (Json_error no_files_msg 500)"
  using assms by (simp add: download_album_def album_body_def Let_def io_defs)

lemma playlist_no_audio:
  assumes "args_get q (str ''MP3_320'') \<in> set allowed_qualities" and "isdigit ident"
    and "mkdtemp env = Inr temp_dir"
    and "provider env Playlist (str ''https://www.deezer.com/playlist/'' @ ident) temp_dir
           (args_get q (str ''MP3_320'')) True False = Inr ()"
    and "audio_files_in (os_walk env temp_dir) = []"
  shows "fst (download_playlist env ident q) = Inr (Json_error no_files_msg 500)"
  using assms by (simp add: download_playlist_def playlist_body_def Let_def io_defs)

text \<open>
  When the provider call raises instead of returning, the handler does not look at the
  work directory: the answer is 500 with the message of the exception.
\<close>

lemma song_provider_error:
  assumes "args_get q (str ''MP3_320'') \<in> set allowed_qualities" and "isdigit ident"
    and "mkdtemp env = Inr temp_dir"
    and "provider env Track (str ''https://www.deezer.com/track/'' @ ident) temp_dir
           (args_get q (str ''MP3_320'')) False False = Inl e"
  shows "fst (download_song env ident q)
         = Inr (Json_error (str ''Error al descargar la canci'' @ [243] @ str ''n: ''
                            @ exn_str e) 500)"
  using assms by (simp add: download_song_def song_body_def Let_def io_defs)

lemma album_provider_error:
  assumes "args_get q (str ''MP3_320'') \<in> set allowed_qualities" and "isdigit ident"
    and "mkdtemp env = Inr temp_dir"
    and "provider env Album (str ''https://www.deezer.com/album/'' @ ident) temp_dir
           (args_get q (str ''MP3_320'')) True False = Inl e"
  shows "fst (download_album env ident q)
         = Inr (Json_error (str ''Error al descargar el '' @ [225] @ str ''lbum: ''
                            @ exn_str e) 500)"
  using assms by (simp add: download_album_def album_body_def Let_def io_defs)

lemma playlist_provider_error:
  assumes "args_get q (str ''MP3_320'') \<in> set allowed_qualities" and "isdigit ident"
    and "mkdtemp env = Inr temp_dir"
    and "provider env Playlist (str ''https://www.deezer.com/playlist/'' @ ident) temp_dir
           (args_get q (str ''MP3_320'')) True False = Inl e"
  shows "fst (download_playlist env ident q)
         = Inr (Json_error (str ''Error al descargar la playlist: '' @ exn_str e) 500)"
  using assms by (simp add: download_playlist_def playlist_body_def Let_def io_defs)

text \<open>
  C4. Take a request that passes validation and gets its work directory, and a provider
  that leaves no file whose name ends in \<^verbatim>\<open>.mp3\<close> or \<^verbatim>\<open>.flac\<close> under it. Each endpoint
  answers 500 with a JSON error body; when the provider call returns, the message is the
  endpoint's no-artifacts message (when it raises, the message is the exception's).
\<close>

theorem no_artifacts_is_500:
  assumes "args_get q (str ''MP3_320'') \<in> set allowed_qualities" and "isdigit ident"
    and "mkdtemp env = Inr temp_dir"
    and "\<forall>(root, dirs, files) \<in> set (os_walk env temp_dir).
           \<forall>file \<in> set files. \<not> is_audio_name file"
  shows "(\<exists>msg. fst (download_song env ident q) = Inr (Json_error msg 500))
       \<and> (\<exists>msg. fst (download_album env ident q) = Inr (Json_error msg 500))
       \<and> (\<exists>msg. fst (download_playlist env ident q) = Inr (Json_error msg 500))
       \<and> (provider env Track (str ''https://www.deezer.com/track/'' @ ident) temp_dir
            (args_get q (str ''MP3_320'')) False False = Inr ()
          \<longrightarrow> fst (download_song env ident q) = Inr (Json_error no_file_msg 500))
       \<and> (provider env Album (str ''https://www.deezer.com/album/'' @ ident) temp_dir
            (args_get q (str ''MP3_320'')) True False = Inr ()
          \<longrightarrow> fst (download_album env ident q) = Inr (Json_error no_files_msg 500))
       \<and> (provider env Playlist (str ''https://www.deezer.com/playlist/'' @ ident) temp_dir
            (args_get q (str ''MP3_320'')) True False = Inr ()
          \<longrightarrow> fst (download_playlist env ident q) = Inr (Json_error no_files_msg 500))"
proof -
  note none = no_audio_names [OF assms(4)]
  note song = song_no_audio [OF assms(1-3) _ none]
    and album = album_no_audio [OF assms(1-3) _ none]
    and playlist = playlist_no_audio [OF assms(1-3) _ none]
  have "\<exists>msg. fst (download_song env ident q) = Inr (Json_error msg 500)"
  proof (cases "provider env Track (str ''https://www.deezer.com/track/'' @ ident) temp_dir
                  (args_get q (str ''MP3_320'')) False False")
    case (Inl e)
    from song_provider_error [OF assms(1-3) Inl] show ?thesis by blast
  next
    case (Inr u)
    then show ?thesis using song by simp
  qed
  moreover
  have "\<exists>msg. fst (download_album env ident q) = Inr (Json_error msg 500)"
  proof (cases "provider env Album (str ''https://www.deezer.com/album/'' @ ident) temp_dir
                  (args_get q (str ''MP3_320'')) True False")
    case (Inl e)
    from album_provider_error [OF assms(1-3) Inl] show ?thesis by blast
  next
    case (Inr u)
    then show ?thesis using album by simp
  qed
  moreover
  have "\<exists>msg. fst (download_playlist env ident q) = Inr (Json_error msg 500)"
  proof (cases "provider env Playlist (str ''https://www.deezer.com/playlist/'' @ ident)
                  temp_dir (args_get q (str ''MP3_320'')) True False")
    case (Inl e)
    from playlist_provider_error [OF assms(1-3) Inl] show ?thesis by blast
  next
    case (Inr u)
    then show ?thesis using playlist by simp
  qed
  ultimately show ?thesis using song album playlist by blast
qed

theorem no_artifacts_is_500_witness:
  "fst (download_song (quiet_env empty_walk flask_call_after_request) (str ''3135556'') None)
     = Inr (Json_error no_file_msg 500)
   \<and> fst (download_album (quiet_env empty_walk flask_call_after_request) (str ''3135556'') None)
     = Inr (Json_error no_files_msg 500)
   \<and> fst (download_playlist (quiet_env empty_walk flask_call_after_request) (str ''3135556'')
            None)
     = Inr (Json_error no_files_msg 500)"
proof -
  let ?env = "quiet_env empty_walk flask_call_after_request"
  have t: "mkdtemp ?env = Inr (str ''/tmp/tmpk3v9xq'')"
    by (simp add: quiet_env_def)
  have w: "\<forall>(root, dirs, files) \<in> set (os_walk ?env (str ''/tmp/tmpk3v9xq'')).
             \<forall>file \<in> set files. \<not> is_audio_name file"
    by (simp add: quiet_env_def empty_walk_def is_audio_name_def endswith_def str_def)
  have p: "provider ?env k link d quality rq rd = Inr ()" for k link d quality rq rd
    by (simp add: quiet_env_def)
  from no_artifacts_is_500 [OF default_allowed digits_3135556 t w] p
  show ?thesis by blast
qed

section \<open>The cleanup callbacks\<close>

text \<open>
  C8. Whatever \<^verbatim>\<open>os.remove\<close>, \<^verbatim>\<open>os.rmdir\<close> and \<^verbatim>\<open>shutil.rmtree\<close> do, raise included,
  each cleanup callback returns normally and returns the response it was given: the
  exception is caught inside the callback and only logged.
\<close>

theorem cleanup_failure_keeps_response:
  "fst (remove_file env audio_file temp_dir response) = Inr response
   \<and> fst (remove_files env zip_path temp_dir response) = Inr response
   \<and> fst (run_cleanup env c response) = Inr response"
proof -
  have one: "fst (remove_file env a t response) = Inr response" for a t
    by (simp add: remove_file_def io_defs split: sum.splits prod.splits)
  have two: "fst (remove_files env a t response) = Inr response" for a t
    by (simp add: remove_files_def io_defs split: sum.splits prod.splits)
  from one two show ?thesis by (cases c) simp_all
qed

theorem cleanup_failure_keeps_response_witness:
  "run_cleanup failing_remove_env
     (Remove_file (str ''/tmp/tmpk3v9xq/a.mp3'') (str ''/tmp/tmpk3v9xq''))
     (Attachment (str ''/tmp/tmpk3v9xq/a.mp3'') (str ''a.mp3'') (str ''audio/mpeg''))
   = (Inr (Attachment (str ''/tmp/tmpk3v9xq/a.mp3'') (str ''a.mp3'') (str ''audio/mpeg'')),
      [Os_remove (str ''/tmp/tmpk3v9xq/a.mp3''),
       Log_error (str ''No se pudo eliminar archivos temporales: [Errno 13] Permission denied'')])"
proof -
  let ?r = "Attachment (str ''/tmp/tmpk3v9xq/a.mp3'') (str ''a.mp3'') (str ''audio/mpeg'')"
  let ?c = "Remove_file (str ''/tmp/tmpk3v9xq/a.mp3'') (str ''/tmp/tmpk3v9xq'')"
  have tr: "snd (run_cleanup failing_remove_env ?c ?r)
      = [Os_remove (str ''/tmp/tmpk3v9xq/a.mp3''),
         Log_error (str ''No se pudo eliminar archivos temporales: [Errno 13] Permission denied'')]"
    by (simp add: remove_file_def io_defs sample_defs str_def)
  from cleanup_failure_keeps_response
         [where env = failing_remove_env and response = ?r and c = ?c]
  have "fst (run_cleanup failing_remove_env ?c ?r) = Inr ?r" by blast
  with tr show ?thesis by (simp add: prod_eq_iff)
qed

section \<open>Delivering the download\<close>

text \<open>
  What the handlers would answer if the response object had the hook they register the
  cleanup with, and every call of the operating system and of the zip library succeeded:
  the attachment the specification describes.
\<close>

lemma song_with_hook:
  assumes "args_get q (str ''MP3_320'') = quality" and "quality \<in> set allowed_qualities"
    and "isdigit ident" and "mkdtemp env = Inr temp_dir"
    and "provider env Track (str ''https://www.deezer.com/track/'' @ ident) temp_dir quality
           False False = Inr ()"
    and "audio_files_in (os_walk env temp_dir) = audio_file # others"
    and "new_filename = sanitize_filename (fst (splitext (basename audio_file))) @ str ''.''
           @ (if quality = str ''FLAC'' then str ''flac'' else str ''mp3'')"
    and "audio_file \<noteq> join temp_dir new_filename
         \<longrightarrow> os_rename env audio_file (join temp_dir new_filename) = Inr ()"
    and "send_file env (join temp_dir new_filename) = Inr ()"
    and "call_after_request env = Inr ()"
  shows "fst (download_song env ident q)
         = Inr (Attachment (join temp_dir new_filename) new_filename
                  (if quality = str ''FLAC'' then str ''audio/flac'' else str ''audio/mpeg''))"
proof (cases "audio_file = join temp_dir new_filename")
  case True
  then have same: "join temp_dir new_filename = audio_file" by simp
  from assms(1-7,9,10) same show ?thesis
    by (simp add: download_song_def song_body_def Let_def io_defs)
next
  case False
  with assms show ?thesis
    by (simp add: download_song_def song_body_def Let_def io_defs)
qed

lemma zip_write_all_ok:
  assumes "\<forall>f \<in> set fs. \<exists>a. relpath (getcwd env) f t = Inr a \<and> zip_write env z f a = Inr ()"
  shows "zip_write_all env z t fs
         = (Inr (), map (\<lambda>f. Zip_write z f (projr (relpath (getcwd env) f t))) fs)"
  using assms
proof (induction fs)
  case Nil
  show ?case by (simp add: ret_def)
next
  case (Cons f fs)
  from Cons.prems obtain a where a: "relpath (getcwd env) f t = Inr a"
    "zip_write env z f a = Inr ()" by auto
  from Cons have rest: "zip_write_all env z t fs
         = (Inr (), map (\<lambda>f. Zip_write z f (projr (relpath (getcwd env) f t))) fs)" by simp
  show ?case by (simp add: a rest io_defs)
qed

lemma album_with_hook:
  assumes "args_get q (str ''MP3_320'') = quality" and "quality \<in> set allowed_qualities"
    and "isdigit ident" and "mkdtemp env = Inr temp_dir"
    and "provider env Album (str ''https://www.deezer.com/album/'' @ ident) temp_dir quality
           True False = Inr ()"
    and "audio_files_in (os_walk env temp_dir) = audio_files" and "audio_files \<noteq> []"
    and "zip_path = join temp_dir (str ''album_'' @ ident @ str ''.zip'')"
    and "zip_open env zip_path = Inr ()"
    and "\<forall>f \<in> set audio_files. \<exists>a. relpath (getcwd env) f temp_dir = Inr a
                                     \<and> zip_write env zip_path f a = Inr ()"
    and "zip_close env zip_path = Inr ()"
    and "send_file env zip_path = Inr ()"
    and "call_after_request env = Inr ()"
  shows "download_album env ident q
         = (Inr (Attachment zip_path (str ''album_'' @ ident @ str ''.zip'')
                   (str ''application/zip'')),
            [Mkdtemp,
             Log_info (str ''Iniciando descarga de '' @ [225] @ str ''lbum: ''
                       @ str ''https://www.deezer.com/album/'' @ ident
                       @ str '', calidad: '' @ quality),
             Provider_call Album (str ''https://www.deezer.com/album/'' @ ident) temp_dir
               quality True False,
             Os_walk temp_dir,
             Zip_open zip_path]
            @ map (\<lambda>f. Zip_write zip_path f (projr (relpath (getcwd env) f temp_dir)))
                audio_files
            @ [Zip_close zip_path,
               Log_info ([193] @ str ''lbum descargado y empaquetado en ZIP: ''
                         @ str_of_nat (length audio_files) @ str '' archivos''),
               Send_file zip_path,
               Call_after_request (Remove_files zip_path temp_dir)])"
proof -
  note zip = zip_write_all_ok [OF assms(10)]
  from assms(1-9,11-13) zip show ?thesis
    by (simp add: download_album_def album_body_def make_zip_def Let_def io_defs)
qed

lemma playlist_with_hook:
  assumes "args_get q (str ''MP3_320'') = quality" and "quality \<in> set allowed_qualities"
    and "isdigit ident" and "mkdtemp env = Inr temp_dir"
    and "provider env Playlist (str ''https://www.deezer.com/playlist/'' @ ident) temp_dir quality
           True False = Inr ()"
    and "audio_files_in (os_walk env temp_dir) = audio_files" and "audio_files \<noteq> []"
    and "zip_path = join temp_dir (str ''playlist_'' @ ident @ str ''.zip'')"
    and "zip_open env zip_path = Inr ()"
    and "\<forall>f \<in> set audio_files. \<exists>a. relpath (getcwd env) f temp_dir = Inr a
                                     \<and> zip_write env zip_path f a = Inr ()"
    and "zip_close env zip_path = Inr ()"
    and "send_file env zip_path = Inr ()"
    and "call_after_request env = Inr ()"
  shows "download_playlist env ident q
         = (Inr (Attachment zip_path (str ''playlist_'' @ ident @ str ''.zip'')
                   (str ''application/zip'')),
            [Mkdtemp,
             Log_info (str ''Iniciando descarga de playlist: ''
                       @ str ''https://www.deezer.com/playlist/'' @ ident
                       @ str '', calidad: '' @ quality),
             Provider_call Playlist (str ''https://www.deezer.com/playlist/'' @ ident) temp_dir
               quality True False,
             Os_walk temp_dir,
             Zip_open zip_path]
            @ map (\<lambda>f. Zip_write zip_path f (projr (relpath (getcwd env) f temp_dir)))
                audio_files
            @ [Zip_close zip_path,
               Log_info (str ''Playlist descargada y empaquetada en ZIP: ''
                         @ str_of_nat (length audio_files) @ str '' archivos''),
               Send_file zip_path,
               Call_after_request (Remove_files zip_path temp_dir)])"
proof -
  note zip = zip_write_all_ok [OF assms(10)]
  from assms(1-9,11-13) zip show ?thesis
    by (simp add: download_playlist_def playlist_body_def make_zip_def Let_def io_defs)
qed

text \<open>
  With Flask's response class the hook does not exist: evaluating
  \<^verbatim>\<open>response.call_after_request\<close> raises inside the handler's \<^verbatim>\<open>try\<close>, after the
  response has been built, and the handler's own \<^verbatim>\<open>except\<close> clause turns the request into
  a 500. No request is answered with an attachment, and no cleanup callback is registered.
\<close>

lemma then_do_call_raises: "fst (then_do (call ev (Inl e)) f) \<noteq> Inr r"
  by (simp add: io_defs)

lemma song_body_no_attachment:
  assumes "call_after_request env = Inl e"
  shows "fst (song_body env ident q) \<noteq> Inr (Attachment p n m)"
  unfolding song_body_def Let_def assms
  by (rule then_do_call_raises | rule then_do_not | rule allI | rule impI | rule conjI
      | simp add: fst_ret split: list.split)+

lemma album_body_no_attachment:
  assumes "call_after_request env = Inl e"
  shows "fst (album_body env ident q) \<noteq> Inr (Attachment p n m)"
  unfolding album_body_def Let_def assms
  by (rule then_do_call_raises | rule then_do_not | rule allI | rule impI | rule conjI
      | simp add: fst_ret split: list.split)+

lemma playlist_body_no_attachment:
  assumes "call_after_request env = Inl e"
  shows "fst (playlist_body env ident q) \<noteq> Inr (Attachment p n m)"
  unfolding playlist_body_def Let_def assms
  by (rule then_do_call_raises | rule then_do_not | rule allI | rule impI | rule conjI
      | simp add: fst_ret split: list.split)+

lemma no_attachment_without_hook:
  assumes "call_after_request env = Inl e"
  shows "fst (download_song env ident q) \<noteq> Inr (Attachment p n m)"
    and "fst (download_album env ident q) \<noteq> Inr (Attachment p n m)"
    and "fst (download_playlist env ident q) \<noteq> Inr (Attachment p n m)"
  unfolding download_song_def download_album_def download_playlist_def
  by (intro try_except_not then_do_not song_body_no_attachment [OF assms]
        album_body_no_attachment [OF assms] playlist_body_no_attachment [OF assms],
      simp add: fst_ret)+

lemmas path_defs = join_def startswith_def endswith_def sep_def curdir_def pardir_def
  basename_def splitext_def rfind_def isabs_def normpath_def normpath_step_def
  abspath_def relpath_def is_audio_name_def audio_files_in_def

lemma digits_302127: "isdigit (str ''302127'')"
  by (simp add: isdigit_def str_def ascii_digit_unicode)

lemma song_files:
  "audio_files_in song_walk = [str ''/tmp/tmpk3v9xq/AC-DC: Best?.mp3'']"
  by (simp add: song_walk_def path_defs str_def)

lemma album_files:
  "audio_files_in album_walk =
     [str ''/tmp/tmpk3v9xq/Album/CD1/01 A.mp3'', str ''/tmp/tmpk3v9xq/Album/CD1/02 B.mp3'',
      str ''/tmp/tmpk3v9xq/Album/CD2/01 C.flac'']"
  by (simp add: album_walk_def path_defs str_def)

lemma album_arcnames:
  "relpath (Inr (str ''/srv/app'')) (str ''/tmp/tmpk3v9xq/Album/CD1/01 A.mp3'')
     (str ''/tmp/tmpk3v9xq'') = Inr (str ''Album/CD1/01 A.mp3'')"
  "relpath (Inr (str ''/srv/app'')) (str ''/tmp/tmpk3v9xq/Album/CD1/02 B.mp3'')
     (str ''/tmp/tmpk3v9xq'') = Inr (str ''Album/CD1/02 B.mp3'')"
  "relpath (Inr (str ''/srv/app'')) (str ''/tmp/tmpk3v9xq/Album/CD2/01 C.flac'')
     (str ''/tmp/tmpk3v9xq'') = Inr (str ''Album/CD2/01 C.flac'')"
  by code_simp+

text \<open>
  C7 describes the answer to a successful track request: an attachment named after the
  sanitized base name of the first audio file found, with \<^verbatim>\<open>.flac\<close> and
  \<^verbatim>\<open>audio/flac\<close> for the quality \<^verbatim>\<open>FLAC\<close>, \<^verbatim>\<open>.mp3\<close> and \<^verbatim>\<open>audio/mpeg\<close> otherwise. The
  handler builds that response (\<open>song_with_hook\<close>) and then fails on the missing hook.
  For track 3135556 at quality \<^verbatim>\<open>FLAC\<close>, with a provider that wrote one audio file and
  an operating system that refuses nothing, the answer is the JSON error with status 500,
  not the attachment \<^verbatim>\<open>AC-DC_ Best_.flac\<close>.
\<close>

theorem song_attachment_not_delivered:
  "fst (download_song (quiet_env song_walk flask_call_after_request) (str ''3135556'')
          (Some (str ''FLAC'')))
   = Inr (Json_error (str ''Error al descargar la canci'' @ [243] @ str ''n: ''
                      @ attribute_error_msg) 500)"
  using digits_3135556 song_files
  by (simp add: download_song_def song_body_def args_get_def allowed_qualities_def Let_def
      io_defs quiet_env_def flask_call_after_request_def)

text \<open>
  C6 describes the answer to a successful album or playlist request: the archive
  \<^verbatim>\<open>album_I.zip\<close> (or \<^verbatim>\<open>playlist_I.zip\<close>) holding the audio files found, each under its
  path relative to the work directory. The handlers write that archive
  (\<open>album_with_hook\<close>) and then fail on the missing hook. For album and playlist 302127,
  with a provider that wrote three audio files in nested directories, the answer is the
  JSON error with status 500, not the archive.
\<close>

theorem archive_not_delivered:
  "fst (download_album (quiet_env album_walk flask_call_after_request) (str ''302127'') None)
   = Inr (Json_error (str ''Error al descargar el '' @ [225] @ str ''lbum: ''
                      @ attribute_error_msg) 500)
   \<and> fst (download_playlist (quiet_env album_walk flask_call_after_request) (str ''302127'')
            None)
   = Inr (Json_error (str ''Error al descargar la playlist: '' @ attribute_error_msg) 500)"
  using digits_302127 album_files album_arcnames
  by (simp add: download_album_def album_body_def download_playlist_def playlist_body_def
      make_zip_def args_get_def allowed_qualities_def Let_def
      io_defs quiet_env_def flask_call_after_request_def)

end
